theory Spec2Isabelle
  imports Main "HOL-Library.AList"
begin

section \<open>The notifier's message templater (app/notification.py)\<close>

text \<open>
  The development embeds \<^verbatim>\<open>Notifier._message_templater\<close>. The method walks the
  nested analysis dictionary (exchange, market, indicator, occurrence), classifies the
  latest row of each occurrence, decides whether to alert, writes the new status into the
  occurrence dictionary, renders the template and finally merges the snapshot into
  \<^verbatim>\<open>self.last_analysis\<close>.

  The occurrence dictionaries are the only objects the method mutates, and they are
  shared between the caller's snapshot and \<^verbatim>\<open>self.last_analysis\<close>. They therefore
  live in an explicit heap, and the dictionaries above them hold addresses. Dictionaries
  are association lists in insertion order.
\<close>

subsection \<open>Values and rows\<close>

text \<open>
  A Python float is a finite binary fraction (sign, mantissa, exponent: the value is
  \<open>\<plusminus> m * 2 ^ e\<close>), an infinity or a NaN.
\<close>

datatype pyfloat = Finite bool nat int | Infinity bool | NaN

datatype pyval = PFloat pyfloat | PInt int | PBool bool | PStr string | PNone

datatype error = IndexError | KeyError | NameError | RenderError

type_synonym row = "(string \<times> pyval) list"

text \<open>Truth value testing, as \<^verbatim>\<open>if x:\<close> does it.\<close>

fun float_nonzero :: "pyfloat \<Rightarrow> bool" where
  "float_nonzero (Finite s m e) = (m \<noteq> 0)"
| "float_nonzero (Infinity s) = True"
| "float_nonzero NaN = True"

fun truthy :: "pyval \<Rightarrow> bool" where
  "truthy (PFloat f) = float_nonzero f"
| "truthy (PInt i) = (i \<noteq> 0)"
| "truthy (PBool b) = b"
| "truthy (PStr s) = (s \<noteq> [])"
| "truthy PNone = False"

subsection \<open>\<^verbatim>\<open>format(x, '.8f')\<close>\<close>

definition digit :: "nat \<Rightarrow> char" where
  "digit d = ''0123456789'' ! d"

function show_nat :: "nat \<Rightarrow> string" where
  "show_nat n = (if n < 10 then [digit n] else show_nat (n div 10) @ [digit (n mod 10)])"
  by pat_completeness auto
termination
  by (relation "measure id") auto

declare show_nat.simps [simp del]

text \<open>
  The magnitude times \<open>10 ^ 8\<close>, rounded to the nearest natural number, ties to even
  (the conversion is correctly rounded on the exact binary value).
\<close>

definition scaled8 :: "nat \<Rightarrow> int \<Rightarrow> nat" where
  "scaled8 m e =
     (if 0 \<le> e then m * 2 ^ nat e * 10 ^ 8
      else let num = m * 10 ^ 8; den = 2 ^ nat (- e); q = num div den; r = num mod den
           in if den < 2 * r \<or> (2 * r = den \<and> odd q) then q + 1 else q)"

definition frac8 :: "nat \<Rightarrow> string" where
  "frac8 n = map (\<lambda>k. digit ((n div 10 ^ k) mod 10)) [7, 6, 5, 4, 3, 2, 1, 0]"

fun format8 :: "pyfloat \<Rightarrow> string" where
  "format8 (Finite s m e) =
     (let n = scaled8 m e
      in (if s then ''-'' else '''') @ show_nat (n div 10 ^ 8) @ ''.'' @ frac8 (n mod 10 ^ 8))"
| "format8 (Infinity s) = (if s then ''-inf'' else ''inf'')"
| "format8 NaN = ''nan''"

text \<open>Lines 243-244: a float is replaced by its formatted string, anything else is kept.\<close>

fun format_value :: "pyval \<Rightarrow> pyval" where
  "format_value (PFloat f) = PStr (format8 f)"
| "format_value v = v"

subsection \<open>The analysis tree and the heap\<close>

record config =
  signal :: "string list"
  alert_frequency :: string
  alert_enabled :: bool

text \<open>
  An occurrence dictionary: \<^verbatim>\<open>config\<close>, \<^verbatim>\<open>result\<close> (the rows of the data frame, oldest
  first) and the optional key \<^verbatim>\<open>status\<close>.
\<close>

record analysis =
  config :: config
  result :: "row list"
  status :: "string option"

type_synonym addr = nat

type_synonym heap = "addr \<Rightarrow> analysis"

text \<open>
  A market dictionary is represented by its \<^verbatim>\<open>'indicators'\<close> entry: indicator name to
  the list of occurrence objects.
\<close>

type_synonym indicators = "(string \<times> addr list) list"

type_synonym markets = "(string \<times> indicators) list"

type_synonym snapshot = "(string \<times> markets) list"

text \<open>The interpreter state the method can see: the heap and \<^verbatim>\<open>self.last_analysis\<close>.\<close>

record world =
  heap :: heap
  last_analysis :: snapshot

text \<open>The locals that the loops carry, with the heap.\<close>

record locals =
  l_heap :: heap
  latest_result :: "row option"
  new_message :: string

text \<open>The keyword arguments of \<^verbatim>\<open>message_template.render\<close> (lines 268-277).\<close>

record render_ctx =
  ctx_values :: "(string \<times> pyval) list"
  ctx_exchange :: string
  ctx_market :: string
  ctx_indicator :: string
  ctx_indicator_number :: nat
  ctx_analysis :: analysis
  ctx_status :: string
  ctx_last_status :: string

text \<open>
  A compiled Jinja template is an external capability: rendering a context gives a text
  or raises. The model takes the compiled template (the value of \<^verbatim>\<open>Template(template)\<close>,
  line 232) as its argument.
\<close>

type_synonym template = "render_ctx \<Rightarrow> error + string"

subsection \<open>The loop body\<close>

text \<open>
  Lines 239-244, one iteration: \<^verbatim>\<open>iloc[-1]\<close> raises on an empty frame, the row lookup
  raises on a missing column.
\<close>

definition signal_step ::
  "analysis \<Rightarrow> string \<Rightarrow> (string \<times> pyval) list \<times> row option
     \<Rightarrow> error + (string \<times> pyval) list \<times> row option" where
  "signal_step an sig acc =
     (if result an = [] then Inl IndexError
      else (case map_of (last (result an)) sig of
              None \<Rightarrow> Inl KeyError
            | Some v \<Rightarrow> Inr (AList.update sig (format_value v) (fst acc), Some (last (result an)))))"

fun signal_loop ::
  "analysis \<Rightarrow> string list \<Rightarrow> (string \<times> pyval) list \<times> row option
     \<Rightarrow> error + (string \<times> pyval) list \<times> row option" where
  "signal_loop an [] acc = Inr acc"
| "signal_loop an (sig # sigs) acc =
     (case signal_step an sig acc of
        Inl err \<Rightarrow> Inl err
      | Inr acc' \<Rightarrow> signal_loop an sigs acc')"

text \<open>Lines 246-250.\<close>

definition classify :: "row \<Rightarrow> error + string" where
  "classify r =
     (case map_of r ''is_hot'' of
        None \<Rightarrow> Inl KeyError
      | Some h \<Rightarrow>
          if truthy h then Inr ''hot''
          else (case map_of r ''is_cold'' of
                  None \<Rightarrow> Inl KeyError
                | Some c \<Rightarrow> Inr (if truthy c then ''cold'' else ''neutral'')))"

text \<open>Line 252: \<^verbatim>\<open>latest_result['is_hot'] or latest_result['is_cold']\<close>.\<close>

definition alert_worthy :: "row \<Rightarrow> error + bool" where
  "alert_worthy r =
     (case map_of r ''is_hot'' of
        None \<Rightarrow> Inl KeyError
      | Some h \<Rightarrow>
          if truthy h then Inr True
          else (case map_of r ''is_cold'' of
                  None \<Rightarrow> Inl KeyError
                | Some c \<Rightarrow> Inr (truthy c)))"

text \<open>
  Lines 253-256. The body of the \<^verbatim>\<open>try\<close> block reads
  \<^verbatim>\<open>self.last_analysis[exchange][market]['indicators'][indicator][index]['status']\<close>;
  \<open>None\<close> stands for any exception on the way (a missing key, an index out of range).
\<close>

definition stored_status ::
  "snapshot \<Rightarrow> heap \<Rightarrow> string \<Rightarrow> string \<Rightarrow> string \<Rightarrow> nat \<Rightarrow> string option" where
  "stored_status la h exchange market indicator index =
     (case map_of la exchange of
        None \<Rightarrow> None
      | Some ms \<Rightarrow>
          (case map_of ms market of
             None \<Rightarrow> None
           | Some inds \<Rightarrow>
               (case map_of inds indicator of
                  None \<Rightarrow> None
                | Some occs \<Rightarrow>
                    if index < length occs then status (h (occs ! index)) else None)))"

text \<open>The \<^verbatim>\<open>except\<close> branch gives \<^verbatim>\<open>str()\<close>.\<close>

definition lookup_last_status ::
  "snapshot \<Rightarrow> heap \<Rightarrow> string \<Rightarrow> string \<Rightarrow> string \<Rightarrow> nat \<Rightarrow> string" where
  "lookup_last_status la h exchange market indicator index =
     (case stored_status la h exchange market indicator index of
        None \<Rightarrow> ''''
      | Some s \<Rightarrow> s)"

text \<open>Lines 258-264.\<close>

definition should_alert :: "config \<Rightarrow> string \<Rightarrow> string \<Rightarrow> bool" where
  "should_alert cfg last_status st =
     (let sa = True;
          sa = (if alert_frequency cfg = ''once''
                then (if last_status = st then False else sa) else sa);
          sa = (if \<not> alert_enabled cfg then False else sa)
      in sa)"

text \<open>
  Lines 267-277: the status is written into the occurrence object, then the template is
  rendered; the template is given that object. The path
  \<^verbatim>\<open>new_analysis[exchange][market]['indicators'][indicator][index]\<close> of line 267 denotes
  the object bound to \<^verbatim>\<open>analysis\<close>: the keys of a dictionary are unique and the
  method changes no container above the occurrences.
\<close>

definition fire_alert ::
  "template \<Rightarrow> string \<Rightarrow> string \<Rightarrow> string \<Rightarrow> nat \<Rightarrow> addr
     \<Rightarrow> (string \<times> pyval) list \<Rightarrow> string \<Rightarrow> string \<Rightarrow> locals \<Rightarrow> error option \<times> locals" where
  "fire_alert tpl exchange market indicator index a vals st last_status s =
     (let h' = (l_heap s)(a := (l_heap s a)\<lparr>status := Some st\<rparr>)
      in (case tpl \<lparr>ctx_values = vals, ctx_exchange = exchange, ctx_market = market,
                     ctx_indicator = indicator, ctx_indicator_number = index,
                     ctx_analysis = h' a, ctx_status = st,
                     ctx_last_status = last_status\<rparr> of
            Inl err \<Rightarrow> (Some err, s\<lparr>l_heap := h'\<rparr>)
          | Inr text \<Rightarrow> (None, s\<lparr>l_heap := h', new_message := new_message s @ text\<rparr>)))"

text \<open>Lines 252-277, once \<^verbatim>\<open>latest_result\<close> and \<^verbatim>\<open>status\<close> are known.\<close>

definition alert_step ::
  "template \<Rightarrow> snapshot \<Rightarrow> string \<Rightarrow> string \<Rightarrow> string \<Rightarrow> nat \<Rightarrow> addr
     \<Rightarrow> (string \<times> pyval) list \<Rightarrow> row \<Rightarrow> string \<Rightarrow> locals \<Rightarrow> error option \<times> locals" where
  "alert_step tpl la exchange market indicator index a vals lr st s =
     (case alert_worthy lr of
        Inl err \<Rightarrow> (Some err, s)
      | Inr False \<Rightarrow> (None, s)
      | Inr True \<Rightarrow>
          let last_status = lookup_last_status la (l_heap s) exchange market indicator index
          in if should_alert (config (l_heap s a)) last_status st
             then fire_alert tpl exchange market indicator index a vals st last_status s
             else (None, s))"

text \<open>
  Lines 238-277: the body of the innermost \<^verbatim>\<open>for index, analysis in enumerate(...)\<close>.
  \<^verbatim>\<open>latest_result\<close> is assigned inside the signal loop only, so with an empty signal list
  it keeps the row of an earlier occurrence, or is unbound.
\<close>

definition process_occurrence ::
  "template \<Rightarrow> snapshot \<Rightarrow> string \<Rightarrow> string \<Rightarrow> string \<Rightarrow> nat \<times> addr
     \<Rightarrow> locals \<Rightarrow> error option \<times> locals" where
  "process_occurrence tpl la exchange market indicator ia s =
     (case signal_loop (l_heap s (snd ia)) (signal (config (l_heap s (snd ia))))
             ([], latest_result s) of
        Inl err \<Rightarrow> (Some err, s)
      | Inr (vals, lro) \<Rightarrow>
          let s1 = s\<lparr>latest_result := lro\<rparr>
          in (case lro of
                None \<Rightarrow> (Some NameError, s1)
              | Some lr \<Rightarrow>
                  (case classify lr of
                     Inl err \<Rightarrow> (Some err, s1)
                   | Inr st \<Rightarrow>
                       alert_step tpl la exchange market indicator (fst ia) (snd ia) vals lr st s1)))"

subsection \<open>The loops and the method\<close>

text \<open>A \<^verbatim>\<open>for\<close> loop whose body may raise: the first exception ends it.\<close>

fun for_each :: "('a \<Rightarrow> 's \<Rightarrow> error option \<times> 's) \<Rightarrow> 'a list \<Rightarrow> 's \<Rightarrow> error option \<times> 's" where
  "for_each body [] s = (None, s)"
| "for_each body (x # xs) s =
     (case body x s of
        (Some err, s') \<Rightarrow> (Some err, s')
      | (None, s') \<Rightarrow> for_each body xs s')"

definition for_indicator ::
  "template \<Rightarrow> snapshot \<Rightarrow> string \<Rightarrow> string \<Rightarrow> string \<times> addr list
     \<Rightarrow> locals \<Rightarrow> error option \<times> locals" where
  "for_indicator tpl la exchange market ind =
     for_each (process_occurrence tpl la exchange market (fst ind)) (enumerate 0 (snd ind))"

definition for_market ::
  "template \<Rightarrow> snapshot \<Rightarrow> string \<Rightarrow> string \<times> indicators \<Rightarrow> locals \<Rightarrow> error option \<times> locals" where
  "for_market tpl la exchange mk =
     for_each (for_indicator tpl la exchange (fst mk)) (snd mk)"

definition for_exchange ::
  "template \<Rightarrow> snapshot \<Rightarrow> string \<times> markets \<Rightarrow> locals \<Rightarrow> error option \<times> locals" where
  "for_exchange tpl la ex = for_each (for_market tpl la (fst ex)) (snd ex)"

text \<open>Line 280: \<^verbatim>\<open>{**self.last_analysis, **new_analysis}\<close>.\<close>

definition dict_merge :: "('k \<times> 'v) list \<Rightarrow> ('k \<times> 'v) list \<Rightarrow> ('k \<times> 'v) list" where
  "dict_merge old new = fold (\<lambda>(k, v). AList.update k v) new old"

text \<open>
  The method. An exception leaves through the loops, so the merge of line 280 is not
  reached; the assignment of line 230 and the writes into the heap stay.
\<close>

definition message_templater ::
  "template \<Rightarrow> snapshot \<Rightarrow> world \<Rightarrow> (error + string) \<times> world" where
  "message_templater tpl new_analysis w =
     (let la = (if last_analysis w = [] then new_analysis else last_analysis w)
      in (case for_each (for_exchange tpl la) new_analysis
                 \<lparr>l_heap = heap w, latest_result = None, new_message = ''''\<rparr> of
            (Some err, s) \<Rightarrow> (Inl err, \<lparr>heap = l_heap s, last_analysis = la\<rparr>)
          | (None, s) \<Rightarrow>
              (Inr (new_message s),
               \<lparr>heap = l_heap s, last_analysis = dict_merge la new_analysis\<rparr>)))"

subsection \<open>Notions used in the statements\<close>

text \<open>
  An occurrence is well formed when its signal list and its data frame are not empty and
  the last row has the columns \<^verbatim>\<open>is_hot\<close>, \<^verbatim>\<open>is_cold\<close> and every signal column. For
  such an occurrence the signal loop binds \<^verbatim>\<open>latest_result\<close> to its own last row and
  nothing before the alert decision raises.
\<close>

definition well_formed :: "analysis \<Rightarrow> bool" where
  "well_formed an \<longleftrightarrow>
     signal (config an) \<noteq> [] \<and> result an \<noteq> [] \<and>
     list_all (\<lambda>c. map_of (last (result an)) c \<noteq> None)
       (''is_hot'' # ''is_cold'' # signal (config an))"

text \<open>The \<^verbatim>\<open>values\<close> dictionary that the signal loop builds for an occurrence.\<close>

definition values_of :: "analysis \<Rightarrow> (string \<times> pyval) list" where
  "values_of an =
     (case signal_loop an (signal (config an)) ([], None) of
        Inl err \<Rightarrow> []
      | Inr acc \<Rightarrow> fst acc)"

text \<open>The keyword arguments with which an alert of an occurrence is rendered.\<close>

definition alert_ctx ::
  "string \<Rightarrow> string \<Rightarrow> string \<Rightarrow> nat \<Rightarrow> analysis \<Rightarrow> string \<Rightarrow> string \<Rightarrow> render_ctx" where
  "alert_ctx exchange market indicator index an st last_status =
     \<lparr>ctx_values = values_of an, ctx_exchange = exchange, ctx_market = market,
      ctx_indicator = indicator, ctx_indicator_number = index,
      ctx_analysis = an\<lparr>status := Some st\<rparr>, ctx_status = st, ctx_last_status = last_status\<rparr>"

text \<open>A snapshot with one exchange, one market, one indicator and one occurrence.\<close>

definition single :: "string \<Rightarrow> string \<Rightarrow> string \<Rightarrow> addr \<Rightarrow> snapshot" where
  "single exchange market indicator a = [(exchange, [(market, [(indicator, [a])])])]"


text \<open>
  The occurrences of a snapshot in the order in which the four nested loops of lines
  234-237 visit them, each with its exchange, market, indicator and index; and the loop
  body as a function of such an entry. The nested loops are one loop over this list
  (lemma \<open>loops_flat\<close>).
\<close>

definition occurrences :: "snapshot \<Rightarrow> (string \<times> string \<times> string \<times> nat \<times> addr) list" where
  "occurrences sn =
     concat (map (\<lambda>ex.
       concat (map (\<lambda>mk.
         concat (map (\<lambda>ind.
           map (\<lambda>ia. (fst ex, fst mk, fst ind, fst ia, snd ia)) (enumerate 0 (snd ind)))
         (snd mk)))
       (snd ex)))
     sn)"

definition occurrence_body ::
  "template \<Rightarrow> snapshot \<Rightarrow> string \<times> string \<times> string \<times> nat \<times> addr
     \<Rightarrow> locals \<Rightarrow> error option \<times> locals" where
  "occurrence_body tpl la x =
     process_occurrence tpl la (fst x) (fst (snd x)) (fst (snd (snd x))) (snd (snd (snd x)))"

text \<open>The locals with which the method enters its loops.\<close>

definition initial_locals :: "world \<Rightarrow> locals" where
  "initial_locals w = \<lparr>l_heap = heap w, latest_result = None, new_message = ''''\<rparr>"

text \<open>
  The record that a store holds at the place of an occurrence, if it holds one: the
  exchange, the market and the indicator are keys of the store and the index is within
  the list.
\<close>

definition stored_record ::
  "snapshot \<Rightarrow> string \<Rightarrow> string \<Rightarrow> string \<Rightarrow> nat \<Rightarrow> addr option" where
  "stored_record la exchange market indicator index =
     Option.bind (map_of la exchange) (\<lambda>ms.
     Option.bind (map_of ms market) (\<lambda>inds.
     Option.bind (map_of inds indicator) (\<lambda>occs.
       if index < length occs then Some (occs ! index) else None)))"


text \<open>
  A fixed-point numeral with eight decimal places: an optional minus sign, at least one
  digit, a point and exactly eight digits.
\<close>

definition is_digit :: "char \<Rightarrow> bool" where
  "is_digit c \<longleftrightarrow> c \<in> set ''0123456789''"

definition fixed8 :: "string \<Rightarrow> bool" where
  "fixed8 t \<longleftrightarrow>
     (let u = (if t \<noteq> [] \<and> hd t = CHR ''-'' then tl t else t);
          ip = takeWhile is_digit u; rest = dropWhile is_digit u
      in ip \<noteq> [] \<and> rest \<noteq> [] \<and> hd rest = CHR ''.'' \<and>
         length (tl rest) = 8 \<and> list_all is_digit (tl rest))"

subsection \<open>A sample market\<close>

text \<open>
  The scenario of one RSI occurrence on \<^verbatim>\<open>ex1\<close>, \<^verbatim>\<open>BTC/USD\<close>, whose signal column
  \<^verbatim>\<open>value\<close> holds the float 71.234, and the template
  \<^verbatim>\<open>{{indicator}} is {{status}}: {{values.value}}\<close>.
\<close>

definition sample_row :: "bool \<Rightarrow> bool \<Rightarrow> row" where
  "sample_row hot cold =
     [(''is_hot'', PBool hot), (''is_cold'', PBool cold),
      (''value'', PFloat (Finite False 5012647122751717 (- 46)))]"

definition sample_occ :: "bool \<Rightarrow> bool \<Rightarrow> string \<Rightarrow> bool \<Rightarrow> string option \<Rightarrow> analysis" where
  "sample_occ hot cold freq enabled st =
     \<lparr>config = \<lparr>signal = [''value''], alert_frequency = freq, alert_enabled = enabled\<rparr>,
      result = [sample_row hot cold], status = st\<rparr>"

definition sample_template :: template where
  "sample_template c =
     Inr (ctx_indicator c @ '' is '' @ ctx_status c @ '': '' @
          (case map_of (ctx_values c) ''value'' of Some (PStr t) \<Rightarrow> t | _ \<Rightarrow> ''''))"

text \<open>A template that cannot be rendered for the occurrences of index 0.\<close>

definition failing_template :: template where
  "failing_template c =
     (if ctx_indicator_number c = 0 then Inl RenderError else sample_template c)"

text \<open>A template that cannot be rendered for the occurrences of index 1.\<close>

definition failing_second_template :: template where
  "failing_second_template c =
     (if ctx_indicator_number c = 1 then Inl RenderError else sample_template c)"

text \<open>
  A heap whose object 1 has an empty signal list and a neutral last row; every other
  object is hot with the signal \<^verbatim>\<open>value\<close>.
\<close>

definition unsignalled_heap :: heap where
  "unsignalled_heap a =
     (if a = 1
      then \<lparr>config = \<lparr>signal = [], alert_frequency = ''once'', alert_enabled = True\<rparr>,
            result = [sample_row False False], status = None\<rparr>
      else sample_occ True False ''once'' True None)"

text \<open>
  The objects: 2 is neutral, 3 is cold, every other one is hot; all alert once, none has
  a status yet.
\<close>

definition sample_heap :: heap where
  "sample_heap a =
     (if a = 2 then sample_occ False False ''once'' True None
      else if a = 3 then sample_occ False True ''once'' True None
      else sample_occ True False ''once'' True None)"

definition sample_snapshot :: "addr \<Rightarrow> snapshot" where
  "sample_snapshot a = single ''ex1'' ''BTC/USD'' ''rsi'' a"

text \<open>The same market with two occurrences of the indicator, the objects 0 and 1.\<close>

definition sample_pair :: snapshot where
  "sample_pair = [(''ex1'', [(''BTC/USD'', [(''rsi'', [0, 1])])])]"

definition sample_world :: "snapshot \<Rightarrow> world" where
  "sample_world la = \<lparr>heap = sample_heap, last_analysis = la\<rparr>"

definition sample_locals :: locals where
  "sample_locals = \<lparr>l_heap = sample_heap, latest_result = None, new_message = ''''\<rparr>"

text \<open>
  The locals after the first of two hot occurrences has fired on the sample heap.
\<close>

definition sample_after_first :: locals where
  "sample_after_first =
     \<lparr>l_heap = sample_heap(0 := (sample_heap 0)\<lparr>status := Some ''hot''\<rparr>),
      latest_result = Some (sample_row True False),
      new_message = ''rsi is hot: 71.23400000''\<rparr>"

text \<open>A world with an empty store whose objects are hot and already carry that status.\<close>

definition marked_world :: world where
  "marked_world =
     \<lparr>heap = (\<lambda>a. sample_occ True False ''once'' True (Some ''hot'')), last_analysis = []\<rparr>"

section \<open>Properties\<close>

subsection \<open>Auxiliary facts\<close>

lemma show_nat_small: "n < 10 \<Longrightarrow> show_nat n = [digit n]"
  by (simp add: show_nat.simps)

lemma show_nat_big: "\<not> n < 10 \<Longrightarrow> show_nat n = show_nat (n div 10) @ [digit (n mod 10)]"
  by (subst show_nat.simps) simp

lemmas eval_format = scaled8_def frac8_def digit_def show_nat_small show_nat_big Let_def

lemma signal_loop_ok:
  assumes "result an \<noteq> []" and "\<forall>c \<in> set sigs. map_of (last (result an)) c \<noteq> None"
  shows "\<exists>vals. signal_loop an sigs (vals0, lr0) =
            Inr (vals, if sigs = [] then lr0 else Some (last (result an)))
          \<and> (\<forall>lr1. signal_loop an sigs (vals0, lr1) =
            Inr (vals, if sigs = [] then lr1 else Some (last (result an))))"
  using assms
proof (induction sigs arbitrary: vals0 lr0)
  case Nil
  then show ?case by simp
next
  case (Cons c sigs)
  then obtain v where v: "map_of (last (result an)) c = Some v" by auto
  from Cons.prems have rest: "\<forall>c \<in> set sigs. map_of (last (result an)) c \<noteq> None" by simp
  from Cons.IH [OF Cons.prems(1) rest, of "AList.update c (format_value v) vals0" "Some (last (result an))"]
  show ?case
    using Cons.prems(1) v by (auto simp: signal_step_def)
qed

lemma signal_loop_well_formed:
  assumes "well_formed an"
  shows "signal_loop an (signal (config an)) ([], lr0) = Inr (values_of an, Some (last (result an)))"
proof -
  from assms have r: "result an \<noteq> []" and ne: "signal (config an) \<noteq> []"
    and c: "\<forall>c \<in> set (signal (config an)). map_of (last (result an)) c \<noteq> None"
    by (auto simp: well_formed_def list_all_iff)
  from signal_loop_ok [OF r c, of "[]" lr0] obtain vals where
    1: "signal_loop an (signal (config an)) ([], lr0) = Inr (vals, Some (last (result an)))"
    and 2: "\<forall>lr1. signal_loop an (signal (config an)) ([], lr1) = Inr (vals, Some (last (result an)))"
    using ne by auto
  from 2 have "values_of an = vals" by (simp add: values_of_def)
  with 1 show ?thesis by simp
qed

lemma alert_worthy_classify:
  assumes "classify r = Inr st"
  shows "alert_worthy r = Inr (st \<noteq> ''neutral'')" and "st \<in> {''hot'', ''cold'', ''neutral''}"
  using assms
  by (auto simp: classify_def alert_worthy_def split: option.splits if_splits)

lemma should_alert_iff:
  "should_alert cfg ls st \<longleftrightarrow>
     alert_enabled cfg \<and> \<not> (alert_frequency cfg = ''once'' \<and> ls = st)"
  by (simp add: should_alert_def Let_def)

lemma process_occurrence_eval:
  assumes wf: "well_formed (l_heap s a)"
    and st: "classify (last (result (l_heap s a))) = Inr st"
  shows "process_occurrence tpl la e m i (idx, a) s =
     (let s1 = s\<lparr>latest_result := Some (last (result (l_heap s a)))\<rparr>;
          ls = lookup_last_status la (l_heap s) e m i idx
      in if st \<noteq> ''neutral'' \<and> should_alert (config (l_heap s a)) ls st
         then fire_alert tpl e m i idx a (values_of (l_heap s a)) st ls s1
         else (None, s1))"
  using alert_worthy_classify(1) [OF st]
  by (cases "st = ''neutral''")
    (simp_all add: process_occurrence_def signal_loop_well_formed [OF wf] st alert_step_def Let_def)

lemma for_each_single: "for_each body [x] s = body x s"
  by (cases "body x s") (auto split: option.splits)



lemma map_of_dict_merge:
  "map_of (dict_merge old new) = map_of old ++ map_of (rev new)"
  unfolding dict_merge_def
proof (induction new arbitrary: old)
  case Nil
  then show ?case by simp
next
  case (Cons p new)
  obtain k v where p: "p = (k, v)" by (cases p)
  have "map_of (fold (\<lambda>(k, v). AList.update k v) new (AList.update k v old))
        = map_of (AList.update k v old) ++ map_of (rev new)"
    by (rule Cons.IH)
  then show ?case
    by (simp add: p update_conv' fun_eq_iff map_add_def split: option.splits)
qed

lemma map_of_rev_distinct:
  "distinct (map fst xs) \<Longrightarrow> map_of (rev xs) = map_of xs"
proof (induction xs)
  case Nil
  then show ?case by simp
next
  case (Cons p xs)
  then have "fst p \<notin> dom (map_of xs)"
    by (simp add: dom_map_of_conv_image_fst)
  with Cons show ?case
    by (cases p) (auto simp: fun_eq_iff map_add_def split: option.splits)
qed

lemma map_of_dict_merge_distinct:
  assumes "distinct (map fst new)"
  shows "map_of (dict_merge old new) k =
           (case map_of new k of Some v \<Rightarrow> Some v | None \<Rightarrow> map_of old k)"
  using assms by (simp add: map_of_dict_merge map_of_rev_distinct map_add_def)

lemmas sample_defs = sample_world_def sample_snapshot_def sample_heap_def sample_occ_def
  sample_row_def sample_template_def failing_template_def sample_locals_def marked_world_def
  sample_pair_def

lemmas body_defs = process_occurrence_def alert_step_def fire_alert_def should_alert_def
  lookup_last_status_def stored_status_def classify_def alert_worthy_def signal_step_def

lemmas loop_defs = message_templater_def for_exchange_def for_market_def for_indicator_def
  single_def enumerate_eq_zip dict_merge_def

subsection \<open>Status classification\<close>



subsection \<open>The merge at the end of a cycle\<close>

text \<open>
  C6. After a call that returns a message, \<^verbatim>\<open>self.last_analysis\<close> maps every exchange
  of the new snapshot to the subtree the snapshot has for it, and every other exchange to
  the subtree it had before the call.
\<close>

theorem merge_exchange_granularity:
  assumes "fst (message_templater tpl new w) = Inr msg"
    and "distinct (map fst new)"
  shows "map_of (last_analysis (snd (message_templater tpl new w))) k =
           (case map_of new k of
              Some sub \<Rightarrow> Some sub
            | None \<Rightarrow> map_of (last_analysis w) k)"
proof -
  from assms(1) have "last_analysis (snd (message_templater tpl new w)) =
      dict_merge (if last_analysis w = [] then new else last_analysis w) new"
    by (auto simp: message_templater_def Let_def split: prod.splits option.splits)
  then show ?thesis
    using assms(2) by (simp add: map_of_dict_merge_distinct split: option.splits)
qed

theorem merge_exchange_granularity_witness:
  "fst (message_templater sample_template (sample_snapshot 0) (sample_world [(''old'', [])])) =
     Inr ''rsi is hot: 71.23400000'' \<and>
   distinct (map fst (sample_snapshot 0)) \<and>
   map_of (last_analysis (snd (message_templater sample_template (sample_snapshot 0)
       (sample_world [(''old'', [])])))) ''ex1'' = Some [(''BTC/USD'', [(''rsi'', [0])])] \<and>
   map_of (last_analysis (snd (message_templater sample_template (sample_snapshot 0)
       (sample_world [(''old'', [])])))) ''old'' = Some []"
proof -
  have m: "fst (message_templater sample_template (sample_snapshot 0)
      (sample_world [(''old'', [])])) = Inr ''rsi is hot: 71.23400000''"
    by (simp add: loop_defs sample_defs body_defs eval_format)
  have d: "distinct (map fst (sample_snapshot 0))"
    by (simp add: sample_snapshot_def single_def)
  from merge_exchange_granularity [OF m d, of "''ex1''"]
    merge_exchange_granularity [OF m d, of "''old''"] m d
  show ?thesis
    by (simp add: sample_snapshot_def single_def sample_world_def)
qed

subsection \<open>Formatting of signal values\<close>

lemma is_digit_digit: "d < 10 \<Longrightarrow> is_digit (digit d)"
proof -
  assume "d < 10"
  then have "d < length ''0123456789''" by simp
  then have "''0123456789'' ! d \<in> set ''0123456789''" by (rule nth_mem)
  then show ?thesis by (simp only: is_digit_def digit_def)
qed

lemma show_nat_digits: "show_nat n \<noteq> [] \<and> list_all is_digit (show_nat n)"
proof (induction n rule: show_nat.induct)
  case (1 n)
  show ?case
  proof (cases "n < 10")
    case True
    then show ?thesis by (simp add: show_nat_small is_digit_digit)
  next
    case False
    with 1 show ?thesis by (simp add: show_nat_big is_digit_digit)
  qed
qed

lemma frac8_digits: "length (frac8 n) = 8 \<and> list_all is_digit (frac8 n)"
  by (simp add: frac8_def is_digit_digit)

lemma not_digit_point: "\<not> is_digit CHR ''.''" "\<not> is_digit CHR ''-''"
  by (simp_all add: is_digit_def)

lemma fixed8_shape:
  assumes "ip \<noteq> []" and "list_all is_digit ip" and "length fr = 8" and "list_all is_digit fr"
  shows "fixed8 ((if s then ''-'' else '''') @ ip @ ''.'' @ fr)"
proof -
  from assms(1,2) have hd: "is_digit (hd ip)" by (cases ip) simp_all
  then have nm: "hd ip \<noteq> CHR ''-''" using not_digit_point(2) by auto
  have tw: "takeWhile is_digit (ip @ ''.'' @ fr) = ip"
    using assms(2) not_digit_point(1) by (simp add: takeWhile_append2 list_all_iff)
  have dw: "dropWhile is_digit (ip @ ''.'' @ fr) = ''.'' @ fr"
    using assms(2) not_digit_point(1) by (simp add: dropWhile_append2 list_all_iff)
  show ?thesis
  proof (cases s)
    case True
    then show ?thesis using tw dw assms not_digit_point by (simp add: fixed8_def)
  next
    case False
    have "hd (ip @ ''.'' @ fr) = hd ip" using assms(1) by simp
    then show ?thesis
      using False tw dw assms nm not_digit_point by (simp add: fixed8_def Let_def)
  qed
qed

lemma fixed8_format8: "fixed8 (format8 (Finite s m e))"
  using fixed8_shape [of "show_nat (scaled8 m e div 10 ^ 8)" "frac8 (scaled8 m e mod 10 ^ 8)" s]
    show_nat_digits frac8_digits
  by (simp add: Let_def)

lemma signal_step_value:
  assumes "signal_step an sig acc = Inr acc'"
  shows "\<exists>v. map_of (last (result an)) sig = Some v \<and>
             map_of (fst acc') sig = Some (format_value v)"
  using assms
  by (auto simp: signal_step_def update_conv' split: if_splits option.splits)

text \<open>
  The scaled magnitude is exact for a non-negative exponent and otherwise a nearest
  natural number: it differs from \<open>m * 10 ^ 8 / 2 ^ k\<close> by at most one half.
\<close>

lemma scaled8_exact: "0 \<le> e \<Longrightarrow> scaled8 m e = m * 2 ^ nat e * 10 ^ 8"
  by (simp add: scaled8_def)

lemma scaled8_nearest:
  assumes "e < 0"
  shows "2 * (scaled8 m e * 2 ^ nat (- e)) \<le> 2 * (m * 10 ^ 8) + 2 ^ nat (- e) \<and>
         2 * (m * 10 ^ 8) \<le> 2 * (scaled8 m e * 2 ^ nat (- e)) + 2 ^ nat (- e)"
proof -
  define den :: nat where "den = 2 ^ nat (- e)"
  define num :: nat where "num = m * 10 ^ 8"
  define q where "q = num div den"
  define r where "r = num mod den"
  have dpos: "0 < den" by (simp add: den_def)
  have split: "num = q * den + r" by (simp add: q_def r_def)
  have rlt: "r < den" using dpos by (simp add: r_def)
  have sc: "scaled8 m e = (if den < 2 * r \<or> (2 * r = den \<and> odd q) then q + 1 else q)"
    using assms by (simp add: scaled8_def Let_def den_def num_def q_def r_def)
  show ?thesis
  proof (cases "den < 2 * r \<or> (2 * r = den \<and> odd q)")
    case True
    then have "scaled8 m e = q + 1" unfolding sc by (simp only: if_True)
    then have "scaled8 m e * den = q * den + den" by (simp add: algebra_simps)
    with True split rlt show ?thesis
      unfolding den_def [symmetric] num_def [symmetric] by auto
  next
    case False
    then have "scaled8 m e = q" unfolding sc by (simp only: if_False)
    then have "scaled8 m e * den = q * den" by simp
    with False split rlt show ?thesis
      unfolding den_def [symmetric] num_def [symmetric] by auto
  qed
qed

text \<open>
  C9, as the claim states it: every float is formatted with eight decimal places. A NaN is
  a float, and \<^verbatim>\<open>format(float('nan'), '.8f')\<close> is \<^verbatim>\<open>nan\<close>.
\<close>

theorem format_nan_counterexample:
  "format_value (PFloat NaN) = PStr ''nan'' \<and> \<not> fixed8 ''nan''"
  by (simp add: fixed8_def is_digit_def)

text \<open>
  C9, amended. The value that the signal loop stores for a signal is the formatted value
  of the row's entry. A finite float is formatted as a fixed-point numeral with exactly
  eight decimal places (0.1 becomes \<^verbatim>\<open>0.10000000\<close>); a NaN and the infinities become
  \<^verbatim>\<open>nan\<close>, \<^verbatim>\<open>inf\<close> and \<^verbatim>\<open>-inf\<close>; a value that is not a float is kept as it is.
\<close>

theorem format_value_eight_places:
  "(signal_step an sig acc = Inr acc' \<longrightarrow>
      (\<exists>x. map_of (last (result an)) sig = Some x \<and>
           map_of (fst acc') sig = Some (format_value x))) \<and>
   format_value (PFloat (Finite s m e)) = PStr (format8 (Finite s m e)) \<and>
   fixed8 (format8 (Finite s m e)) \<and>
   format_value (PFloat (Finite False 3602879701896397 (- 55))) = PStr ''0.10000000'' \<and>
   format_value (PFloat NaN) = PStr ''nan'' \<and>
   format_value (PFloat (Infinity s)) = PStr (if s then ''-inf'' else ''inf'') \<and>
   ((\<forall>f. v \<noteq> PFloat f) \<longrightarrow> format_value v = v)"
proof -
  have "(\<forall>f. v \<noteq> PFloat f) \<longrightarrow> format_value v = v"
    by (cases v) simp_all
  moreover have "format_value (PFloat (Finite False 3602879701896397 (- 55))) = PStr ''0.10000000''"
    by (simp add: eval_format)
  ultimately show ?thesis
    using signal_step_value [of an sig acc acc'] fixed8_format8 [of s m e] by simp
qed

theorem format_value_eight_places_witness:
  "signal_step (sample_occ True False ''once'' True None) ''value'' ([], None) =
     Inr ([(''value'', PStr ''71.23400000'')], Some (sample_row True False)) \<and>
   map_of [(''value'', PStr ''71.23400000'')] ''value'' = Some (PStr ''71.23400000'') \<and>
   fixed8 ''71.23400000'' \<and>
   (\<forall>f. PInt 3 \<noteq> PFloat f) \<and> format_value (PInt 3) = PInt 3"
proof -
  have st: "signal_step (sample_occ True False ''once'' True None) ''value'' ([], None) =
      Inr ([(''value'', PStr ''71.23400000'')], Some (sample_row True False))"
    by (simp add: signal_step_def sample_occ_def sample_row_def eval_format)
  have f: "format8 (Finite False 5012647122751717 (- 46)) = ''71.23400000''"
    by (simp add: eval_format)
  have nf: "\<forall>f. PInt 3 \<noteq> PFloat f" by simp
  from format_value_eight_places [of "sample_occ True False ''once'' True None" "''value''"
      "([], None)" "([(''value'', PStr ''71.23400000'')], Some (sample_row True False))"
      False 5012647122751717 "- 46" "PInt 3"] st f nf
  show ?thesis by simp
qed

subsection \<open>One occurrence in one call\<close>

lemma well_formed_status [simp]: "well_formed (an\<lparr>status := x\<rparr>) = well_formed an"
  by (simp add: well_formed_def)

lemma values_of_status [simp]: "values_of (an\<lparr>status := x\<rparr>) = values_of an"
proof -
  have step: "signal_step (an\<lparr>status := x\<rparr>) sig acc = signal_step an sig acc" for sig acc
    by (auto simp: signal_step_def split: option.splits)
  have "signal_loop (an\<lparr>status := x\<rparr>) sigs acc = signal_loop an sigs acc" for sigs acc
    by (induction sigs arbitrary: acc) (simp_all add: step split: sum.splits)
  then show ?thesis by (simp add: values_of_def)
qed






lemma fire_alert_after_signal_loop:
  "fire_alert tpl e m i idx a (values_of (l_heap s a)) st ls (s\<lparr>latest_result := x\<rparr>) =
     (case tpl (alert_ctx e m i idx (l_heap s a) st ls) of
        Inl err \<Rightarrow>
          (Some err, s\<lparr>latest_result := x,
                        l_heap := (l_heap s)(a := (l_heap s a)\<lparr>status := Some st\<rparr>)\<rparr>)
      | Inr text \<Rightarrow>
          (None, s\<lparr>latest_result := x,
                   l_heap := (l_heap s)(a := (l_heap s a)\<lparr>status := Some st\<rparr>),
                   new_message := new_message s @ text\<rparr>))"
  by (simp add: fire_alert_def alert_ctx_def Let_def split: sum.splits)

lemma process_occurrence_fires:
  assumes "well_formed (l_heap s a)"
    and "classify (last (result (l_heap s a))) = Inr st"
    and "st \<noteq> ''neutral''"
    and "should_alert (config (l_heap s a)) (lookup_last_status la (l_heap s) e m i idx) st"
  shows "process_occurrence tpl la e m i (idx, a) s =
     (case tpl (alert_ctx e m i idx (l_heap s a) st (lookup_last_status la (l_heap s) e m i idx)) of
        Inl err \<Rightarrow>
          (Some err, s\<lparr>latest_result := Some (last (result (l_heap s a))),
                        l_heap := (l_heap s)(a := (l_heap s a)\<lparr>status := Some st\<rparr>)\<rparr>)
      | Inr text \<Rightarrow>
          (None, s\<lparr>latest_result := Some (last (result (l_heap s a))),
                   l_heap := (l_heap s)(a := (l_heap s a)\<lparr>status := Some st\<rparr>),
                   new_message := new_message s @ text\<rparr>))"
proof -
  have "process_occurrence tpl la e m i (idx, a) s =
      fire_alert tpl e m i idx a (values_of (l_heap s a)) st
        (lookup_last_status la (l_heap s) e m i idx)
        (s\<lparr>latest_result := Some (last (result (l_heap s a)))\<rparr>)"
    using assms by (simp add: process_occurrence_eval Let_def)
  then show ?thesis by (simp only: fire_alert_after_signal_loop)
qed

lemma process_occurrence_silent:
  assumes "well_formed (l_heap s a)"
    and "classify (last (result (l_heap s a))) = Inr st"
    and "\<not> (st \<noteq> ''neutral'' \<and>
            should_alert (config (l_heap s a)) (lookup_last_status la (l_heap s) e m i idx) st)"
  shows "process_occurrence tpl la e m i (idx, a) s =
           (None, s\<lparr>latest_result := Some (last (result (l_heap s a)))\<rparr>)"
  using assms by (auto simp: process_occurrence_eval Let_def)

subsection \<open>The loops as one loop\<close>

lemma for_each_append:
  "for_each body (xs @ ys) s =
     (case for_each body xs s of
        (Some err, s') \<Rightarrow> (Some err, s')
      | (None, s') \<Rightarrow> for_each body ys s')"
  by (induction xs arbitrary: s) (auto split: prod.splits option.splits)

lemma for_each_concat_map:
  "for_each body (concat (map f xs)) = for_each (\<lambda>x. for_each body (f x)) xs"
proof
  fix s
  show "for_each body (concat (map f xs)) s = for_each (\<lambda>x. for_each body (f x)) xs s"
    by (induction xs arbitrary: s) (auto simp: for_each_append split: prod.splits option.splits)
qed

lemma for_each_map: "for_each body (map f xs) = for_each (\<lambda>x. body (f x)) xs"
proof
  fix s
  show "for_each body (map f xs) s = for_each (\<lambda>x. body (f x)) xs s"
    by (induction xs arbitrary: s) (auto split: prod.splits option.splits)
qed

lemma for_each_cong:
  "(\<And>x s. x \<in> set xs \<Longrightarrow> f x s = g x s) \<Longrightarrow> for_each f xs s = for_each g xs s"
  by (induction xs arbitrary: s) (auto split: prod.splits option.splits)

lemma loops_flat:
  "for_each (for_exchange tpl la) new s = for_each (occurrence_body tpl la) (occurrences new) s"
proof -
  have ind: "(\<lambda>ind. for_each (occurrence_body tpl la)
        (map (\<lambda>ia. (e, m, fst ind, ia)) (enumerate 0 (snd ind)))) = for_indicator tpl la e m"
    for e m
    by (rule ext)+ (simp add: for_each_map occurrence_body_def for_indicator_def)
  have mk: "(\<lambda>mk. for_each (\<lambda>ind. for_each (occurrence_body tpl la)
        (map (\<lambda>ia. (e, fst mk, fst ind, ia)) (enumerate 0 (snd ind)))) (snd mk)) =
      for_market tpl la e" for e
    by (rule ext)+ (simp add: ind for_market_def)
  have ex: "(\<lambda>ex. for_each (\<lambda>mk. for_each (\<lambda>ind. for_each (occurrence_body tpl la)
        (map (\<lambda>ia. (fst ex, fst mk, fst ind, ia)) (enumerate 0 (snd ind)))) (snd mk)) (snd ex)) =
      for_exchange tpl la"
    by (rule ext)+ (simp add: mk for_exchange_def)
  show ?thesis
    by (simp add: occurrences_def for_each_concat_map ex)
qed

lemma templater_flat:
  "message_templater tpl new w =
     (let la = (if last_analysis w = [] then new else last_analysis w)
      in (case for_each (occurrence_body tpl la) (occurrences new) (initial_locals w) of
            (Some err, s) \<Rightarrow> (Inl err, \<lparr>heap = l_heap s, last_analysis = la\<rparr>)
          | (None, s) \<Rightarrow>
              (Inr (new_message s),
               \<lparr>heap = l_heap s, last_analysis = dict_merge la new\<rparr>)))"
  by (simp add: message_templater_def loops_flat initial_locals_def)

lemma stored_status_record:
  "stored_status la h e m i idx =
     (case stored_record la e m i idx of None \<Rightarrow> None | Some b \<Rightarrow> status (h b))"
  by (simp add: stored_status_def stored_record_def split: option.splits)

lemma run_to_occurrence:
  assumes "occurrences new = pre @ x # post"
    and "for_each (occurrence_body tpl la) pre s0 = (None, s1)"
  shows "for_each (occurrence_body tpl la) (pre @ [x]) s0 = occurrence_body tpl la x s1"
    and "for_each (occurrence_body tpl la) (occurrences new) s0 =
     (case occurrence_body tpl la x s1 of
        (Some err, s') \<Rightarrow> (Some err, s')
      | (None, s') \<Rightarrow> for_each (occurrence_body tpl la) post s')"
  using assms(2)
  by (simp_all add: assms(1) for_each_append split: prod.splits option.splits)

lemma sample_pair_occurrences:
  "occurrences sample_pair =
     [(''ex1'', ''BTC/USD'', ''rsi'', 0, 0)] @ (''ex1'', ''BTC/USD'', ''rsi'', 1, 1) # []"
  by (simp add: occurrences_def sample_pair_def enumerate_eq_zip)

lemma sample_first_fires:
  "for_each (occurrence_body sample_template sample_pair)
     [(''ex1'', ''BTC/USD'', ''rsi'', 0, 0)] (initial_locals (sample_world [])) =
     (None, sample_after_first)"
  "for_each (occurrence_body failing_second_template [(''old'', [])])
     [(''ex1'', ''BTC/USD'', ''rsi'', 0, 0)] (initial_locals (sample_world [(''old'', [])])) =
     (None, sample_after_first)"
  by (simp_all add: occurrence_body_def initial_locals_def sample_after_first_def
      failing_second_template_def sample_defs body_defs eval_format)

lemma sample_after_first_second:
  "well_formed (l_heap sample_after_first 1)"
  "classify (last (result (l_heap sample_after_first 1))) = Inr ''hot''"
  "alert_enabled (config (l_heap sample_after_first 1))"
  "status (l_heap sample_after_first 1) = None"
  "status (l_heap sample_after_first 0) = Some ''hot''"
  by (simp_all add: sample_after_first_def well_formed_def classify_def sample_defs)

subsection \<open>The alert decision\<close>

text \<open>
  With an empty signal list the signal loop does not run: the body then classifies the
  row that an earlier occurrence left in \<^verbatim>\<open>latest_result\<close>, or raises when there is
  none.
\<close>

lemma empty_signal_list_keeps_earlier_row:
  assumes "signal (config (l_heap s a)) = []"
  shows "process_occurrence tpl la e m i (idx, a) s =
     (case latest_result s of
        None \<Rightarrow> (Some NameError, s)
      | Some lr \<Rightarrow>
          (case classify lr of
             Inl err \<Rightarrow> (Some err, s)
           | Inr st \<Rightarrow> alert_step tpl la e m i idx a [] lr st s))"
proof -
  have "s\<lparr>latest_result := latest_result s\<rparr> = s" by simp
  then show ?thesis
    using assms
    by (simp add: process_occurrence_def split: option.splits sum.splits)
qed

text \<open>
  C2. The claim is about every occurrence, and its last sentence says that an occurrence
  whose last row is neither hot nor cold is not rendered and gets no status. The code
  binds \<^verbatim>\<open>latest_result\<close> inside the signal loop (line 240): in a snapshot whose
  first occurrence is hot and whose second occurrence has an empty signal list and a
  neutral last row, the second occurrence is classified by the row of the first, is
  rendered as hot and gets the status \<^verbatim>\<open>hot\<close>.
\<close>

theorem empty_signal_list_alerts_neutral:
  "signal (config (unsignalled_heap 1)) = [] \<and>
   classify (last (result (unsignalled_heap 1))) = Inr ''neutral'' \<and>
   fst (message_templater sample_template sample_pair
          \<lparr>heap = unsignalled_heap, last_analysis = []\<rparr>) =
     Inr ''rsi is hot: 71.23400000rsi is hot: '' \<and>
   status (heap (snd (message_templater sample_template sample_pair
          \<lparr>heap = unsignalled_heap, last_analysis = []\<rparr>)) 1) = Some ''hot''"
  by (simp add: loop_defs sample_defs unsignalled_heap_def body_defs eval_format)

text \<open>
  For an occurrence with a signal the body decides as follows. When the occurrence's last
  row is hot or cold, the template is rendered for it (and the status written) if and
  only if \<^verbatim>\<open>alert_enabled\<close> is true and it is not the case that
  \<^verbatim>\<open>alert_frequency\<close> is \<^verbatim>\<open>once\<close> with the last status equal to the current
  status. When the row is neither hot nor cold, the message and the heap stay as they are.
\<close>

lemma alert_iff_enabled_and_not_repeated:
  assumes "well_formed (l_heap s a)"
    and "classify (last (result (l_heap s a))) = Inr st"
  shows "process_occurrence tpl la e m i (idx, a) s =
     (if st \<noteq> ''neutral'' \<and> alert_enabled (config (l_heap s a)) \<and>
         \<not> (alert_frequency (config (l_heap s a)) = ''once'' \<and>
            lookup_last_status la (l_heap s) e m i idx = st)
      then (case tpl (alert_ctx e m i idx (l_heap s a) st
                       (lookup_last_status la (l_heap s) e m i idx)) of
              Inl err \<Rightarrow>
                (Some err, s\<lparr>latest_result := Some (last (result (l_heap s a))),
                              l_heap := (l_heap s)(a := (l_heap s a)\<lparr>status := Some st\<rparr>)\<rparr>)
            | Inr text \<Rightarrow>
                (None, s\<lparr>latest_result := Some (last (result (l_heap s a))),
                         l_heap := (l_heap s)(a := (l_heap s a)\<lparr>status := Some st\<rparr>),
                         new_message := new_message s @ text\<rparr>))
      else (None, s\<lparr>latest_result := Some (last (result (l_heap s a)))\<rparr>))"
proof (cases "st \<noteq> ''neutral'' \<and> alert_enabled (config (l_heap s a)) \<and>
         \<not> (alert_frequency (config (l_heap s a)) = ''once'' \<and>
            lookup_last_status la (l_heap s) e m i idx = st)")
  case True
  then have "should_alert (config (l_heap s a)) (lookup_last_status la (l_heap s) e m i idx) st"
    and "st \<noteq> ''neutral''"
    by (simp_all add: should_alert_iff)
  from process_occurrence_fires [OF assms this(2) this(1)]
  show ?thesis by (simp only: if_P [OF True])
next
  case False
  then have "\<not> (st \<noteq> ''neutral'' \<and>
      should_alert (config (l_heap s a)) (lookup_last_status la (l_heap s) e m i idx) st)"
    by (simp add: should_alert_iff)
  from process_occurrence_silent [OF assms this]
  show ?thesis by (simp only: if_not_P [OF False])
qed

text \<open>
  C4, as the claim states it: with no prior stored state the lookup gives the empty
  string and a first hot observation fires. Here the store is empty, so nothing is
  stored for the occurrence, and the occurrence is hot and enabled; but its incoming
  record carries the status \<^verbatim>\<open>hot\<close>. Line 230 makes the snapshot the store, the
  lookup reads the record itself and gives \<^verbatim>\<open>hot\<close>, and the message is empty.
\<close>

theorem first_observation_suppressed_counterexample:
  "last_analysis marked_world = [] \<and>
   stored_record (last_analysis marked_world) ''ex1'' ''BTC/USD'' ''rsi'' 0 = None \<and>
   classify (last (result (heap marked_world 0))) = Inr ''hot'' \<and>
   alert_enabled (config (heap marked_world 0)) \<and>
   lookup_last_status (sample_snapshot 0) (heap marked_world) ''ex1'' ''BTC/USD'' ''rsi'' 0 =
     ''hot'' \<and>
   fst (message_templater sample_template (sample_snapshot 0) marked_world) = Inr ''''"
  by (simp add: loop_defs sample_defs body_defs eval_format stored_record_def)

text \<open>
  C4, amended. The method reaches an occurrence with a signal after the occurrences
  before it have been processed without an exception, in the state \<open>s1\<close>. The store
  that the lookup reads is the prior store, or the snapshot itself when the prior store
  is empty. When that store holds no record at the place of the occurrence, or the
  record it holds there has no status (on an empty prior store that record is the
  incoming record of the occurrence), the lookup gives the empty string and does not
  raise; and an occurrence that is hot or cold and enabled then fires, whatever its
  \<^verbatim>\<open>alert_frequency\<close> is: the status is written and the rendering is appended to the
  message. When the occurrence is the last one of the snapshot this determines the
  result of the call.
\<close>

theorem first_observation_fires:
  assumes "occurrences new = pre @ (e, m, i, idx, a) # post"
    and "la = (if last_analysis w = [] then new else last_analysis w)"
    and "for_each (occurrence_body tpl la) pre (initial_locals w) = (None, s1)"
    and "well_formed (l_heap s1 a)"
    and "classify (last (result (l_heap s1 a))) = Inr st"
    and "st \<noteq> ''neutral''"
    and "alert_enabled (config (l_heap s1 a))"
    and "case stored_record la e m i idx of
           None \<Rightarrow> True
         | Some b \<Rightarrow> status (l_heap s1 b) = None"
  shows "lookup_last_status la (l_heap s1) e m i idx = '''' \<and>
    (st = ''hot'' \<or> st = ''cold'') \<and>
    for_each (occurrence_body tpl la) (pre @ [(e, m, i, idx, a)]) (initial_locals w) =
      (case tpl (alert_ctx e m i idx (l_heap s1 a) st '''') of
         Inl err \<Rightarrow>
           (Some err, s1\<lparr>latest_result := Some (last (result (l_heap s1 a))),
                         l_heap := (l_heap s1)(a := (l_heap s1 a)\<lparr>status := Some st\<rparr>)\<rparr>)
       | Inr text \<Rightarrow>
           (None, s1\<lparr>latest_result := Some (last (result (l_heap s1 a))),
                    l_heap := (l_heap s1)(a := (l_heap s1 a)\<lparr>status := Some st\<rparr>),
                    new_message := new_message s1 @ text\<rparr>)) \<and>
    (post = [] \<longrightarrow>
       message_templater tpl new w =
         (case tpl (alert_ctx e m i idx (l_heap s1 a) st '''') of
            Inl err \<Rightarrow>
              (Inl err, \<lparr>heap = (l_heap s1)(a := (l_heap s1 a)\<lparr>status := Some st\<rparr>),
                         last_analysis = la\<rparr>)
          | Inr text \<Rightarrow>
              (Inr (new_message s1 @ text),
               \<lparr>heap = (l_heap s1)(a := (l_heap s1 a)\<lparr>status := Some st\<rparr>),
                last_analysis = dict_merge la new\<rparr>)))"
proof -
  have ls: "lookup_last_status la (l_heap s1) e m i idx = ''''"
    using assms(8)
    by (simp add: lookup_last_status_def stored_status_record split: option.splits)
  from alert_worthy_classify(2) [OF assms(5)] assms(6)
  have hc: "st = ''hot'' \<or> st = ''cold''" by auto
  then have nem: "st \<noteq> ''''" by auto
  have sa: "should_alert (config (l_heap s1 a)) (lookup_last_status la (l_heap s1) e m i idx) st"
    using assms(7) ls nem by (simp add: should_alert_iff)
  have body: "occurrence_body tpl la (e, m, i, idx, a) s1 =
      (case tpl (alert_ctx e m i idx (l_heap s1 a) st '''') of
         Inl err \<Rightarrow>
           (Some err, s1\<lparr>latest_result := Some (last (result (l_heap s1 a))),
                         l_heap := (l_heap s1)(a := (l_heap s1 a)\<lparr>status := Some st\<rparr>)\<rparr>)
       | Inr text \<Rightarrow>
           (None, s1\<lparr>latest_result := Some (last (result (l_heap s1 a))),
                    l_heap := (l_heap s1)(a := (l_heap s1 a)\<lparr>status := Some st\<rparr>),
                    new_message := new_message s1 @ text\<rparr>))"
    using process_occurrence_fires [OF assms(4,5,6) sa, of tpl] ls
    by (simp add: occurrence_body_def)
  note r = run_to_occurrence [OF assms(1,3)]
  have loop: "for_each (occurrence_body tpl la) (pre @ [(e, m, i, idx, a)]) (initial_locals w) =
      (case tpl (alert_ctx e m i idx (l_heap s1 a) st '''') of
         Inl err \<Rightarrow>
           (Some err, s1\<lparr>latest_result := Some (last (result (l_heap s1 a))),
                         l_heap := (l_heap s1)(a := (l_heap s1 a)\<lparr>status := Some st\<rparr>)\<rparr>)
       | Inr text \<Rightarrow>
           (None, s1\<lparr>latest_result := Some (last (result (l_heap s1 a))),
                    l_heap := (l_heap s1)(a := (l_heap s1 a)\<lparr>status := Some st\<rparr>),
                    new_message := new_message s1 @ text\<rparr>))"
    by (simp only: r(1) body)
  have meth: "message_templater tpl new w =
         (case tpl (alert_ctx e m i idx (l_heap s1 a) st '''') of
            Inl err \<Rightarrow>
              (Inl err, \<lparr>heap = (l_heap s1)(a := (l_heap s1 a)\<lparr>status := Some st\<rparr>),
                         last_analysis = la\<rparr>)
          | Inr text \<Rightarrow>
              (Inr (new_message s1 @ text),
               \<lparr>heap = (l_heap s1)(a := (l_heap s1 a)\<lparr>status := Some st\<rparr>),
                last_analysis = dict_merge la new\<rparr>))"
    if "post = []"
  proof -
    from that assms(1) have "occurrences new = pre @ [(e, m, i, idx, a)]" by simp
    then show ?thesis
      unfolding templater_flat assms(2) [symmetric] Let_def
      by (simp add: loop split: sum.splits)
  qed
  from ls hc loop meth show ?thesis by blast
qed

theorem first_observation_fires_witness:
  "occurrences sample_pair =
     [(''ex1'', ''BTC/USD'', ''rsi'', 0, 0)] @ (''ex1'', ''BTC/USD'', ''rsi'', 1, 1) # [] \<and>
   sample_pair = (if last_analysis (sample_world []) = [] then sample_pair
                  else last_analysis (sample_world [])) \<and>
   for_each (occurrence_body sample_template sample_pair)
     [(''ex1'', ''BTC/USD'', ''rsi'', 0, 0)] (initial_locals (sample_world [])) =
     (None, sample_after_first) \<and>
   well_formed (l_heap sample_after_first 1) \<and>
   classify (last (result (l_heap sample_after_first 1))) = Inr ''hot'' \<and>
   alert_enabled (config (l_heap sample_after_first 1)) \<and>
   stored_record sample_pair ''ex1'' ''BTC/USD'' ''rsi'' 1 = Some 1 \<and>
   status (l_heap sample_after_first 1) = None \<and>
   lookup_last_status sample_pair (l_heap sample_after_first) ''ex1'' ''BTC/USD'' ''rsi'' 1 = '''' \<and>
   message_templater sample_template sample_pair (sample_world []) =
     (Inr ''rsi is hot: 71.23400000rsi is hot: 71.23400000'',
      \<lparr>heap = (l_heap sample_after_first)
                (1 := (l_heap sample_after_first 1)\<lparr>status := Some ''hot''\<rparr>),
       last_analysis = dict_merge sample_pair sample_pair\<rparr>)"
proof -
  have la: "sample_pair = (if last_analysis (sample_world []) = [] then sample_pair
      else last_analysis (sample_world []))"
    by (simp add: sample_world_def)
  have ne: "''hot'' \<noteq> ''neutral''" by simp
  have sr: "stored_record sample_pair ''ex1'' ''BTC/USD'' ''rsi'' 1 = Some 1"
    by (simp add: stored_record_def sample_pair_def)
  have no: "case stored_record sample_pair ''ex1'' ''BTC/USD'' ''rsi'' 1 of
      None \<Rightarrow> True | Some b \<Rightarrow> status (l_heap sample_after_first b) = None"
    by (simp only: sr option.case sample_after_first_second(4))
  have r: "sample_template (alert_ctx ''ex1'' ''BTC/USD'' ''rsi'' 1 (l_heap sample_after_first 1)
      ''hot'' '''') = Inr ''rsi is hot: 71.23400000''"
    by (simp add: alert_ctx_def values_of_def signal_step_def sample_after_first_def
        sample_defs eval_format)
  have msg: "new_message sample_after_first = ''rsi is hot: 71.23400000''"
    by (simp add: sample_after_first_def)
  note t = first_observation_fires [where new = sample_pair and pre = "[(''ex1'', ''BTC/USD'', ''rsi'', 0, 0)]"
      and e = "''ex1''" and m = "''BTC/USD''" and i = "''rsi''" and idx = 1 and a = 1
      and post = "[]" and la = sample_pair and w = "sample_world []" and tpl = sample_template
      and ?s1.0 = sample_after_first and st = "''hot''",
      OF sample_pair_occurrences la sample_first_fires(1) sample_after_first_second(1,2) ne
        sample_after_first_second(3) no]
  from t have l: "lookup_last_status sample_pair (l_heap sample_after_first)
      ''ex1'' ''BTC/USD'' ''rsi'' 1 = ''''" by blast
  from t have "message_templater sample_template sample_pair (sample_world []) =
     (case sample_template (alert_ctx ''ex1'' ''BTC/USD'' ''rsi'' 1 (l_heap sample_after_first 1)
         ''hot'' '''') of
        Inl err \<Rightarrow>
          (Inl err, \<lparr>heap = (l_heap sample_after_first)
                       (1 := (l_heap sample_after_first 1)\<lparr>status := Some ''hot''\<rparr>),
                     last_analysis = sample_pair\<rparr>)
      | Inr text \<Rightarrow>
          (Inr (new_message sample_after_first @ text),
           \<lparr>heap = (l_heap sample_after_first)
                     (1 := (l_heap sample_after_first 1)\<lparr>status := Some ''hot''\<rparr>),
            last_analysis = dict_merge sample_pair sample_pair\<rparr>))"
    by blast
  then have m: "message_templater sample_template sample_pair (sample_world []) =
     (Inr ''rsi is hot: 71.23400000rsi is hot: 71.23400000'',
      \<lparr>heap = (l_heap sample_after_first)
                (1 := (l_heap sample_after_first 1)\<lparr>status := Some ''hot''\<rparr>),
       last_analysis = dict_merge sample_pair sample_pair\<rparr>)"
    by (simp only: r msg sum.case append.simps)
  from sample_pair_occurrences la sample_first_fires(1) sample_after_first_second(1,2,3,4) sr l m
  show ?thesis by (intro conjI)
qed

subsection \<open>The first call\<close>



subsection \<open>Two cycles\<close>








subsection \<open>What a call changes\<close>



















subsection \<open>A template that cannot be rendered\<close>

text \<open>
  C8, as the claim states it: after a rendering failure the other occurrences are still
  processed and the merge is committed. With a template that fails for the first of two
  hot occurrences the call raises, the second occurrence keeps no status and the store is
  not merged; with a template that renders, the second occurrence fires.
\<close>

theorem failed_render_counterexample:
  "fst (message_templater failing_template sample_pair (sample_world [(''old'', [])])) =
     Inl RenderError \<and>
   status (heap (snd (message_templater failing_template sample_pair
       (sample_world [(''old'', [])]))) 1) = None \<and>
   last_analysis (snd (message_templater failing_template sample_pair
       (sample_world [(''old'', [])]))) = [(''old'', [])] \<and>
   fst (message_templater sample_template sample_pair (sample_world [(''old'', [])])) =
     Inr ''rsi is hot: 71.23400000rsi is hot: 71.23400000'' \<and>
   status (heap (snd (message_templater sample_template sample_pair
       (sample_world [(''old'', [])]))) 1) = Some ''hot''"
  by (simp add: loop_defs sample_defs body_defs eval_format)

text \<open>
  C8, amended. The method reaches an occurrence after the occurrences before it have been
  processed without an exception, in the state \<open>s1\<close>; the body gets as far as the
  rendering (the signal loop returns, the row is classified as hot or cold and the
  alert is due) and the rendering fails. Then the exception leaves the method: no
  message is returned, no occurrence after it is processed and the merge at the end of
  the cycle is not executed. The heap is the one the earlier occurrences left, with the
  status of the failing occurrence written in addition: the statuses written before the
  failure stay.
\<close>

theorem render_failure_aborts_cycle:
  assumes "occurrences new = pre @ (e, m, i, idx, a) # post"
    and "la = (if last_analysis w = [] then new else last_analysis w)"
    and "for_each (occurrence_body tpl la) pre (initial_locals w) = (None, s1)"
    and "signal_loop (l_heap s1 a) (signal (config (l_heap s1 a))) ([], latest_result s1) =
           Inr (vals, Some lr)"
    and "classify lr = Inr st"
    and "alert_worthy lr = Inr True"
    and "should_alert (config (l_heap s1 a)) (lookup_last_status la (l_heap s1) e m i idx) st"
    and "tpl \<lparr>ctx_values = vals, ctx_exchange = e, ctx_market = m, ctx_indicator = i,
              ctx_indicator_number = idx,
              ctx_analysis = (l_heap s1 a)\<lparr>status := Some st\<rparr>, ctx_status = st,
              ctx_last_status = lookup_last_status la (l_heap s1) e m i idx\<rparr> = Inl err"
  shows "message_templater tpl new w =
     (Inl err, \<lparr>heap = (l_heap s1)(a := (l_heap s1 a)\<lparr>status := Some st\<rparr>),
                last_analysis = la\<rparr>)"
proof -
  have body: "occurrence_body tpl la (e, m, i, idx, a) s1 =
      (Some err, s1\<lparr>latest_result := Some lr,
                    l_heap := (l_heap s1)(a := (l_heap s1 a)\<lparr>status := Some st\<rparr>)\<rparr>)"
    using assms(4-8)
    by (simp add: occurrence_body_def process_occurrence_def alert_step_def fire_alert_def)
  from run_to_occurrence(2) [OF assms(1,3)] body
  have "for_each (occurrence_body tpl la) (occurrences new) (initial_locals w) =
      (Some err, s1\<lparr>latest_result := Some lr,
                    l_heap := (l_heap s1)(a := (l_heap s1 a)\<lparr>status := Some st\<rparr>)\<rparr>)"
    by simp
  then show ?thesis
    unfolding templater_flat assms(2) [symmetric] Let_def by simp
qed

theorem render_failure_aborts_cycle_witness:
  "occurrences sample_pair =
     [(''ex1'', ''BTC/USD'', ''rsi'', 0, 0)] @ (''ex1'', ''BTC/USD'', ''rsi'', 1, 1) # [] \<and>
   [(''old'', [])] = (if last_analysis (sample_world [(''old'', [])]) = [] then sample_pair
                       else last_analysis (sample_world [(''old'', [])])) \<and>
   for_each (occurrence_body failing_second_template [(''old'', [])])
     [(''ex1'', ''BTC/USD'', ''rsi'', 0, 0)] (initial_locals (sample_world [(''old'', [])])) =
     (None, sample_after_first) \<and>
   signal_loop (l_heap sample_after_first 1) (signal (config (l_heap sample_after_first 1)))
     ([], latest_result sample_after_first) =
     Inr ([(''value'', PStr ''71.23400000'')], Some (sample_row True False)) \<and>
   classify (sample_row True False) = Inr ''hot'' \<and>
   alert_worthy (sample_row True False) = Inr True \<and>
   should_alert (config (l_heap sample_after_first 1))
     (lookup_last_status [(''old'', [])] (l_heap sample_after_first)
        ''ex1'' ''BTC/USD'' ''rsi'' 1) ''hot'' \<and>
   failing_second_template
     \<lparr>ctx_values = [(''value'', PStr ''71.23400000'')], ctx_exchange = ''ex1'',
      ctx_market = ''BTC/USD'', ctx_indicator = ''rsi'', ctx_indicator_number = 1,
      ctx_analysis = (l_heap sample_after_first 1)\<lparr>status := Some ''hot''\<rparr>,
      ctx_status = ''hot'',
      ctx_last_status = lookup_last_status [(''old'', [])] (l_heap sample_after_first)
        ''ex1'' ''BTC/USD'' ''rsi'' 1\<rparr> = Inl RenderError \<and>
   status (l_heap sample_after_first 0) = Some ''hot'' \<and>
   message_templater failing_second_template sample_pair (sample_world [(''old'', [])]) =
     (Inl RenderError,
      \<lparr>heap = (l_heap sample_after_first)
                (1 := (l_heap sample_after_first 1)\<lparr>status := Some ''hot''\<rparr>),
       last_analysis = [(''old'', [])]\<rparr>)"
proof -
  have la: "[(''old'', [])] = (if last_analysis (sample_world [(''old'', [])]) = []
      then sample_pair else last_analysis (sample_world [(''old'', [])]))"
    by (simp add: sample_world_def)
  have sl: "signal_loop (l_heap sample_after_first 1)
      (signal (config (l_heap sample_after_first 1))) ([], latest_result sample_after_first) =
      Inr ([(''value'', PStr ''71.23400000'')], Some (sample_row True False))"
    by (simp add: sample_after_first_def signal_step_def sample_defs eval_format)
  have cl: "classify (sample_row True False) = Inr ''hot''"
    and aw: "alert_worthy (sample_row True False) = Inr True"
    by (simp_all add: classify_def alert_worthy_def sample_row_def)
  have sa: "should_alert (config (l_heap sample_after_first 1))
      (lookup_last_status [(''old'', [])] (l_heap sample_after_first)
         ''ex1'' ''BTC/USD'' ''rsi'' 1) ''hot''"
    by (simp add: should_alert_def lookup_last_status_def stored_status_def
        sample_after_first_def sample_defs)
  have rf: "failing_second_template
     \<lparr>ctx_values = [(''value'', PStr ''71.23400000'')], ctx_exchange = ''ex1'',
      ctx_market = ''BTC/USD'', ctx_indicator = ''rsi'', ctx_indicator_number = 1,
      ctx_analysis = (l_heap sample_after_first 1)\<lparr>status := Some ''hot''\<rparr>,
      ctx_status = ''hot'',
      ctx_last_status = lookup_last_status [(''old'', [])] (l_heap sample_after_first)
        ''ex1'' ''BTC/USD'' ''rsi'' 1\<rparr> = Inl RenderError"
    by (simp add: failing_second_template_def)
  note t = render_failure_aborts_cycle [where new = sample_pair
      and pre = "[(''ex1'', ''BTC/USD'', ''rsi'', 0, 0)]"
      and e = "''ex1''" and m = "''BTC/USD''" and i = "''rsi''" and idx = 1 and a = 1
      and post = "[]" and la = "[(''old'', [])]" and w = "sample_world [(''old'', [])]"
      and tpl = failing_second_template and ?s1.0 = sample_after_first and st = "''hot''"
      and vals = "[(''value'', PStr ''71.23400000'')]" and lr = "sample_row True False"
      and err = RenderError,
      OF sample_pair_occurrences la sample_first_fires(2) sl cl aw sa rf]
  from sample_pair_occurrences la sample_first_fires(2) sl cl aw sa rf
    sample_after_first_second(5) t
  show ?thesis by (intro conjI)
qed

subsection \<open>The stored status across cycles\<close>

lemma sample_cycle1: "message_templater sample_template (sample_snapshot 0) (sample_world []) =
  (Inr ''rsi is hot: 71.23400000'',
   \<lparr>heap = sample_heap(0 := (sample_heap 0)\<lparr>status := Some ''hot''\<rparr>),
    last_analysis = sample_snapshot 0\<rparr>)"
  by (simp add: loop_defs sample_defs body_defs eval_format)

lemma sample_cycle2: "message_templater sample_template (sample_snapshot 2)
   \<lparr>heap = sample_heap(0 := (sample_heap 0)\<lparr>status := Some ''hot''\<rparr>),
    last_analysis = sample_snapshot 0\<rparr> =
  (Inr '''',
   \<lparr>heap = sample_heap(0 := (sample_heap 0)\<lparr>status := Some ''hot''\<rparr>),
    last_analysis = sample_snapshot 2\<rparr>)"
  by (simp add: loop_defs sample_defs body_defs eval_format)

lemma sample_cycle3: "fst (message_templater sample_template (sample_snapshot 1)
   \<lparr>heap = sample_heap(0 := (sample_heap 0)\<lparr>status := Some ''hot''\<rparr>),
    last_analysis = sample_snapshot 2\<rparr>) = Inr ''rsi is hot: 71.23400000''"
  by (simp add: loop_defs sample_defs body_defs eval_format)

text \<open>
  C3. The status is written only when an alert fires, but the store does not keep it: the
  merge replaces the whole subtree of the exchange by the one of the new snapshot. An
  occurrence fires as hot in the first cycle and \<^verbatim>\<open>hot\<close> is stored. The second cycle
  brings a newly built snapshot in which the occurrence is neutral: nothing fires, and
  after the merge the store has no status for the occurrence any more. A third cycle, hot
  again, alerts again although the frequency is \<^verbatim>\<open>once\<close> and the last alert was hot.
\<close>

theorem quiet_cycle_drops_stored_status:
  "fst (message_templater sample_template (sample_snapshot 0) (sample_world [])) =
     Inr ''rsi is hot: 71.23400000'' \<and>
   stored_status
     (last_analysis (snd (message_templater sample_template (sample_snapshot 0) (sample_world []))))
     (heap (snd (message_templater sample_template (sample_snapshot 0) (sample_world []))))
     ''ex1'' ''BTC/USD'' ''rsi'' 0 = Some ''hot'' \<and>
   fst (message_templater sample_template (sample_snapshot 2)
     (snd (message_templater sample_template (sample_snapshot 0) (sample_world [])))) = Inr '''' \<and>
   stored_status
     (last_analysis (snd (message_templater sample_template (sample_snapshot 2)
        (snd (message_templater sample_template (sample_snapshot 0) (sample_world []))))))
     (heap (snd (message_templater sample_template (sample_snapshot 2)
        (snd (message_templater sample_template (sample_snapshot 0) (sample_world []))))))
     ''ex1'' ''BTC/USD'' ''rsi'' 0 = None \<and>
   fst (message_templater sample_template (sample_snapshot 1)
     (snd (message_templater sample_template (sample_snapshot 2)
        (snd (message_templater sample_template (sample_snapshot 0) (sample_world [])))))) =
     Inr ''rsi is hot: 71.23400000''"
  unfolding sample_cycle1 snd_conv fst_conv sample_cycle2 sample_cycle3 world.select_convs
  by (simp add: stored_status_def sample_snapshot_def single_def sample_heap_def sample_occ_def)

end
